theory Spec2Isabelle
  imports Main "HOL-Library.Word" "HOL-Library.Sublist"
begin

section \<open>Python text and values\<close>

text \<open>
  A Python \<^verbatim>\<open>str\<close> is a sequence of Unicode code points, a \<^verbatim>\<open>bytes\<close> object a
  sequence of octets. String literals of the source are written \<open>str ''...''\<close>.
\<close>

type_synonym pystr = "nat list"
type_synonym pybytes = "8 word list"

abbreviation str :: "string \<Rightarrow> pystr" where
  "str s \<equiv> map of_char s"

abbreviation nl :: nat where
  "nl \<equiv> 10"

text \<open>
  The characters removed by \<^verbatim>\<open>str.strip()\<close> without argument: those for which
  CPython's \<^verbatim>\<open>Py_UNICODE_ISSPACE\<close> holds.
\<close>

definition isspace :: "nat \<Rightarrow> bool" where
  "isspace c \<longleftrightarrow>
     (9 \<le> c \<and> c \<le> 13) \<or> (28 \<le> c \<and> c \<le> 32) \<or> c = 133 \<or> c = 160 \<or> c = 5760 \<or>
     (8192 \<le> c \<and> c \<le> 8202) \<or> c = 8232 \<or> c = 8233 \<or> c = 8239 \<or> c = 8287 \<or>
     c = 12288"

definition strip :: "pystr \<Rightarrow> pystr" where
  "strip s = rev (dropWhile isspace (rev (dropWhile isspace s)))"

text \<open>\<^verbatim>\<open>s.split('\n')\<close>: the segments between newlines; never the empty list.\<close>

fun cons_first :: "nat \<Rightarrow> pystr list \<Rightarrow> pystr list" where
  "cons_first c [] = [[c]]"
| "cons_first c (l # ls) = (c # l) # ls"

fun split_nl :: "pystr \<Rightarrow> pystr list" where
  "split_nl [] = [[]]"
| "split_nl (c # cs) = (if c = nl then [] # split_nl cs else cons_first c (split_nl cs))"

text \<open>
  The values the client handles: what \<^verbatim>\<open>json.loads\<close> returns and what callers pass in
  dictionaries. A dictionary is an association list read with \<open>map_of\<close>.
\<close>

datatype pyval =
    PNone
  | PBool bool
  | PInt int
  | PStr pystr
  | PList "pyval list"
  | PDict "(pystr \<times> pyval) list"

definition dict_len :: "(pystr \<times> pyval) list \<Rightarrow> nat" where
  "dict_len kv = length (remdups (map fst kv))"

datatype error =
    ValueError pystr
  | KeyError pystr
  | TypeError
  | AttributeError
  | UnicodeDecodeError
  | JSONDecodeError
  | RecursionError
  | HTTPStatusError nat pystr
  | RequestError pystr
  | MissingRequiredFields pystr

text \<open>What the client prints, one constructor per \<^verbatim>\<open>print\<close> site (or pair of sites).\<close>

datatype printed =
    Api_Error nat pystr
  | Error_While pystr error
  | Parse_Error pystr
  | CloudEvent_Error error

section \<open>Whole-body NDJSON decoding (\<^verbatim>\<open>stream_events\<close>, \<^verbatim>\<open>q\<close>)\<close>

text \<open>
  \<^verbatim>\<open>json.loads\<close> and the \<^verbatim>\<open>CloudEvent\<close> constructor belong to libraries; they are
  parameters, and return \<open>Inl e\<close> where the library raises \<open>e\<close>. For \<^verbatim>\<open>json.loads\<close>
  that is \<^verbatim>\<open>JSONDecodeError\<close> on text that is not JSON, but also \<^verbatim>\<open>ValueError\<close> (an
  integer of more digits than the interpreter converts) and \<^verbatim>\<open>RecursionError\<close> (nesting
  too deep), which \<^verbatim>\<open>except json.JSONDecodeError\<close> does not catch.
\<close>

type_synonym loader = "pystr \<Rightarrow> error + pyval"
type_synonym 'e adapter = "pyval \<Rightarrow> error + 'e"

text \<open>
  The loop of \<^verbatim>\<open>q\<close> over the lines of the body: the prints so far and the list
  \<^verbatim>\<open>results\<close> are threaded through. Only \<^verbatim>\<open>JSONDecodeError\<close> is caught inside the
  loop; any other exception of \<^verbatim>\<open>json.loads\<close> leaves it.
\<close>

fun q_lines :: "loader \<Rightarrow> pystr list \<Rightarrow> printed list \<Rightarrow> pyval list
    \<Rightarrow> printed list \<times> (error + pyval list)" where
  "q_lines loads [] out results = (out, Inr results)"
| "q_lines loads (l # ls) out results =
     (let line = strip l in
      if line = [] then q_lines loads ls out results
      else (case loads line of
              Inl e \<Rightarrow>
                if e = JSONDecodeError then q_lines loads ls (out @ [Parse_Error line]) results
                else (out, Inl e)
            | Inr json_data \<Rightarrow> q_lines loads ls out (results @ [json_data])))"

text \<open>
  The loop of \<^verbatim>\<open>stream_events\<close>: the same, with the constructor called inside the
  \<^verbatim>\<open>try\<close>; its exception leaves the loop too.
\<close>

fun stream_lines :: "loader \<Rightarrow> 'e adapter \<Rightarrow> pystr list \<Rightarrow> printed list \<Rightarrow> 'e list
    \<Rightarrow> printed list \<times> (error + 'e list)" where
  "stream_lines loads mk [] out events = (out, Inr events)"
| "stream_lines loads mk (l # ls) out events =
     (let line = strip l in
      if line = [] then stream_lines loads mk ls out events
      else (case loads line of
              Inl e \<Rightarrow>
                if e = JSONDecodeError
                then stream_lines loads mk ls (out @ [Parse_Error line]) events
                else (out, Inl e)
            | Inr json_data \<Rightarrow>
                (case mk json_data of
                   Inl e \<Rightarrow> (out, Inl e)
                 | Inr event \<Rightarrow> stream_lines loads mk ls out (events @ [event]))))"

text \<open>The part of both functions after \<^verbatim>\<open>raise_for_status\<close>, on \<^verbatim>\<open>response.text\<close>.\<close>

definition q_body :: "loader \<Rightarrow> pystr \<Rightarrow> printed list \<times> (error + pyval list)" where
  "q_body loads raw_text =
     (if raw_text = [] \<or> strip raw_text = [] then ([], Inr [])
      else q_lines loads (split_nl (strip raw_text)) [] [])"

definition stream_body :: "loader \<Rightarrow> 'e adapter \<Rightarrow> pystr \<Rightarrow> printed list \<times> (error + 'e list)" where
  "stream_body loads mk raw_text =
     (if raw_text = [] \<or> strip raw_text = [] then ([], Inr [])
      else stream_lines loads mk (split_nl (strip raw_text)) [] [])"


section \<open>Streaming decoding (\<^verbatim>\<open>observe_events\<close>)\<close>

text \<open>
  What the generator does, in order: an event it yields or a message it prints.
\<close>

datatype 'e emitted = Yield 'e | Print printed

text \<open>\<^verbatim>\<open>line[6:] if line.startswith('data: ') else line\<close>.\<close>

definition json_str :: "pystr \<Rightarrow> pystr" where
  "json_str line = (if prefix (str ''data: '') line then drop 6 line else line)"

text \<open>
  The body of the inner \<^verbatim>\<open>while\<close> loop for one extracted line. The handler
  \<^verbatim>\<open>except Exception\<close> prints every exception that is not a \<^verbatim>\<open>JSONDecodeError\<close> as a
  failure of the constructor: another exception of \<^verbatim>\<open>json.loads\<close>, and the
  \<^verbatim>\<open>AttributeError\<close> of \<^verbatim>\<open>json_data.get\<close>, which exists on a dictionary only.
\<close>

definition observe_line :: "loader \<Rightarrow> 'e adapter \<Rightarrow> pystr \<Rightarrow> 'e emitted list" where
  "observe_line loads mk l =
     (let line = strip l in
      if line = [] then []
      else
        (case loads (json_str line) of
           Inl e \<Rightarrow>
             if e = JSONDecodeError then [Print (Parse_Error line)]
             else [Print (CloudEvent_Error e)]
         | Inr json_data \<Rightarrow>
             (case json_data of
                PDict kv \<Rightarrow>
                  if map_of kv (str ''payload'') = Some (PStr []) \<and> dict_len kv = 1 then []
                  else (case mk json_data of
                          Inl e \<Rightarrow> [Print (CloudEvent_Error e)]
                        | Inr event \<Rightarrow> [Yield event])
              | _ \<Rightarrow> [Print (CloudEvent_Error AttributeError)])))"

text \<open>
  \<^verbatim>\<open>while '\n' in buffer: line, buffer = buffer.split('\n', 1); ...\<close>: returns what
  was emitted and the buffer left.
\<close>

function drain :: "loader \<Rightarrow> 'e adapter \<Rightarrow> pystr \<Rightarrow> 'e emitted list \<times> pystr" where
  "drain loads mk buffer =
     (if nl \<in> set buffer then
        (let line = takeWhile (\<lambda>c. c \<noteq> nl) buffer;
             rest = drop (Suc (length line)) buffer;
             (out, buffer') = drain loads mk rest
         in (observe_line loads mk line @ out, buffer'))
      else ([], buffer))"
  by pat_completeness auto
termination
  by (relation "measure (\<lambda>(loads, mk, buffer). length buffer)") (auto intro!: diff_less length_pos_if_in_set)

declare drain.simps [simp del]

text \<open>
  \<^verbatim>\<open>chunk.decode('utf-8')\<close>: Python's strict UTF-8 codec. \<open>None\<close> stands for
  \<^verbatim>\<open>UnicodeDecodeError\<close>: an invalid start byte, an invalid continuation byte, an overlong
  form, a surrogate, a code point above U+10FFFF, or input that ends inside a character.
\<close>

definition continuation :: "8 word \<Rightarrow> bool" where
  "continuation b \<longleftrightarrow> 0x80 \<le> b \<and> b \<le> 0xBF"

definition second_of3 :: "8 word \<Rightarrow> 8 word \<Rightarrow> bool" where
  "second_of3 b b1 \<longleftrightarrow>
     (if b = 0xE0 then 0xA0 \<le> b1 \<and> b1 \<le> 0xBF
      else if b = 0xED then 0x80 \<le> b1 \<and> b1 \<le> 0x9F
      else continuation b1)"

definition second_of4 :: "8 word \<Rightarrow> 8 word \<Rightarrow> bool" where
  "second_of4 b b1 \<longleftrightarrow>
     (if b = 0xF0 then 0x90 \<le> b1 \<and> b1 \<le> 0xBF
      else if b = 0xF4 then 0x80 \<le> b1 \<and> b1 \<le> 0x8F
      else continuation b1)"

fun utf8_decode :: "pybytes \<Rightarrow> pystr option" where
  "utf8_decode [] = Some []"
| "utf8_decode (b # bs) =
     (if b < 0x80 then map_option ((#) (unat b)) (utf8_decode bs)
      else if 0xC2 \<le> b \<and> b \<le> 0xDF then
        (case bs of
           b1 # r \<Rightarrow>
             if continuation b1
             then map_option ((#) ((unat b - 0xC0) * 64 + (unat b1 - 0x80))) (utf8_decode r)
             else None
         | _ \<Rightarrow> None)
      else if 0xE0 \<le> b \<and> b \<le> 0xEF then
        (case bs of
           b1 # b2 # r \<Rightarrow>
             if second_of3 b b1 \<and> continuation b2
             then map_option
                    ((#) ((unat b - 0xE0) * 4096 + (unat b1 - 0x80) * 64 + (unat b2 - 0x80)))
                    (utf8_decode r)
             else None
         | _ \<Rightarrow> None)
      else if 0xF0 \<le> b \<and> b \<le> 0xF4 then
        (case bs of
           b1 # b2 # b3 # r \<Rightarrow>
             if second_of4 b b1 \<and> continuation b2 \<and> continuation b3
             then map_option
                    ((#) ((unat b - 0xF0) * 262144 + (unat b1 - 0x80) * 4096
                          + (unat b2 - 0x80) * 64 + (unat b3 - 0x80)))
                    (utf8_decode r)
             else None
         | _ \<Rightarrow> None)
      else None)"

text \<open>
  \<^verbatim>\<open>async for chunk in response.aiter_bytes(): buffer += chunk.decode('utf-8'); ...\<close>.
  The decoding is outside the inner \<^verbatim>\<open>try\<close>, so its exception ends the generator; what
  was yielded before stays yielded. The result is what was emitted and the exception
  that ended the loop, if any.
\<close>

fun observe_chunks :: "loader \<Rightarrow> 'e adapter \<Rightarrow> pybytes list \<Rightarrow> pystr
    \<Rightarrow> 'e emitted list \<times> error option" where
  "observe_chunks loads mk [] buffer = ([], None)"
| "observe_chunks loads mk (chunk # chunks) buffer =
     (case utf8_decode chunk of
        None \<Rightarrow> ([], Some UnicodeDecodeError)
      | Some text \<Rightarrow>
          (let (out, buffer') = drain loads mk (buffer @ text);
               (out', raised) = observe_chunks loads mk chunks buffer'
           in (out @ out', raised)))"

section \<open>Client construction\<close>

record client =
  api_url :: pystr
  api_version :: pystr
  auth_token :: pystr

type_synonym environ = "pystr \<Rightarrow> pystr option"
type_synonym dict = "(pystr \<times> pyval) list"

text \<open>\<^verbatim>\<open>os.getenv(var, '')\<close>.\<close>

definition getenv_or_empty :: "environ \<Rightarrow> pystr \<Rightarrow> pystr" where
  "getenv_or_empty env var = (case env var of None \<Rightarrow> [] | Some v \<Rightarrow> v)"

text \<open>\<^verbatim>\<open>config.get(key) or os.getenv(var, '')\<close>: a missing or empty entry is falsy.\<close>

definition config_or_env :: "(pystr \<times> pystr) list \<Rightarrow> pystr \<Rightarrow> environ \<Rightarrow> pystr \<Rightarrow> pystr" where
  "config_or_env config key env var =
     (case map_of config key of
        None \<Rightarrow> getenv_or_empty env var
      | Some v \<Rightarrow> if v \<noteq> [] then v else getenv_or_empty env var)"

definition required_env_vars :: "pystr list" where
  "required_env_vars =
     [str ''GENESISDB_API_URL'', str ''GENESISDB_API_VERSION'', str ''GENESISDB_AUTH_TOKEN'']"

text \<open>\<^verbatim>\<open>sep.join(xs)\<close>.\<close>

fun join :: "pystr \<Rightarrow> pystr list \<Rightarrow> pystr" where
  "join sep [] = []"
| "join sep [x] = x"
| "join sep (x # y # ys) = x @ sep @ join sep (y # ys)"

text \<open>\<^verbatim>\<open>not os.getenv(var)\<close>: unset, or set to the empty string.\<close>

definition env_unset :: "environ \<Rightarrow> pystr \<Rightarrow> bool" where
  "env_unset env var \<longleftrightarrow> (case env var of None \<Rightarrow> True | Some v \<Rightarrow> v = [])"

definition missing_message :: "pystr list \<Rightarrow> pystr" where
  "missing_message vars = str ''Missing required environment variables: '' @ join (str '', '') vars"

definition check_required_env :: "environ \<Rightarrow> error + unit" where
  "check_required_env env =
     (let missing_env_vars = filter (env_unset env) required_env_vars in
      if missing_env_vars \<noteq> [] then Inl (ValueError (missing_message missing_env_vars))
      else Inr ())"

text \<open>
  \<^verbatim>\<open>Client.__init__\<close>. \<^verbatim>\<open>if config:\<close> is false for \<^verbatim>\<open>None\<close> and for the empty
  dictionary.
\<close>

definition Client_init :: "(pystr \<times> pystr) list option \<Rightarrow> environ \<Rightarrow> error + client" where
  "Client_init config env =
     (let self =
        (case config of
           Some (c # cs) \<Rightarrow>
             \<lparr>api_url = config_or_env (c # cs) (str ''api_url'') env (str ''GENESISDB_API_URL''),
              api_version =
                config_or_env (c # cs) (str ''api_version'') env (str ''GENESISDB_API_VERSION''),
              auth_token =
                config_or_env (c # cs) (str ''auth_token'') env (str ''GENESISDB_AUTH_TOKEN'')\<rparr>
         | _ \<Rightarrow>
             \<lparr>api_url = getenv_or_empty env (str ''GENESISDB_API_URL''),
              api_version = getenv_or_empty env (str ''GENESISDB_API_VERSION''),
              auth_token = getenv_or_empty env (str ''GENESISDB_AUTH_TOKEN'')\<rparr>)
      in if api_url self = [] \<or> api_version self = [] \<or> auth_token self = []
         then (case check_required_env env of Inl e \<Rightarrow> Inl e | Inr _ \<Rightarrow> Inr self)
         else Inr self)"

section \<open>Transport\<close>

datatype http_method = GET | POST

record request =
  verb :: http_method
  url :: pystr
  headers :: "(pystr \<times> pystr) list"
  json_body :: "pyval option"

text \<open>
  A response: \<open>response_text\<close> is \<^verbatim>\<open>response.text\<close>, \<open>byte_chunks\<close> is what
  \<^verbatim>\<open>response.aiter_bytes()\<close> delivers.
\<close>

record response =
  status_code :: nat
  reason_phrase :: pystr
  response_text :: pystr
  byte_chunks :: "pybytes list"

text \<open>
  The HTTP library is a parameter: \<open>send req\<close> is the response to the one request, or
  the exception the library raises for it (connection failure, timeout).
\<close>

type_synonym transport = "request \<Rightarrow> error + response"

text \<open>\<^verbatim>\<open>response.raise_for_status()\<close> of httpx: raises unless the status is 2xx.\<close>

definition raise_for_status :: "response \<Rightarrow> error + unit" where
  "raise_for_status r =
     (if 200 \<le> status_code r \<and> status_code r < 300 then Inr ()
      else Inl (HTTPStatusError (status_code r) (reason_phrase r)))"

text \<open>
  The two handlers that close every operation:
  \<^verbatim>\<open>except httpx.HTTPStatusError as error: print(f"API Error: ..."); raise\<close> and
  \<^verbatim>\<open>except Exception as error: print(f"Error while ...: {error}"); raise\<close>.
\<close>

definition report :: "pystr \<Rightarrow> error \<Rightarrow> printed" where
  "report what e =
     (case e of HTTPStatusError code reason \<Rightarrow> Api_Error code reason | _ \<Rightarrow> Error_While what e)"

record 'a outcome =
  requests :: "request list"
  prints :: "printed list"
  result :: "error + 'a"

definition endpoint :: "client \<Rightarrow> pystr \<Rightarrow> pystr" where
  "endpoint self name = api_url self @ str ''/api/'' @ api_version self @ str ''/'' @ name"

definition ndjson_headers :: "client \<Rightarrow> (pystr \<times> pystr) list" where
  "ndjson_headers self =
     [(str ''Authorization'', str ''Bearer '' @ auth_token self),
      (str ''Content-Type'', str ''application/json''),
      (str ''Accept'', str ''application/x-ndjson''),
      (str ''User-Agent'', str ''genesisdb-sdk'')]"

definition json_headers :: "client \<Rightarrow> (pystr \<times> pystr) list" where
  "json_headers self =
     [(str ''Authorization'', str ''Bearer '' @ auth_token self),
      (str ''Content-Type'', str ''application/json''),
      (str ''User-Agent'', str ''genesisdb-sdk'')]"

definition plain_headers :: "client \<Rightarrow> (pystr \<times> pystr) list" where
  "plain_headers self =
     [(str ''Authorization'', str ''Bearer '' @ auth_token self),
      (str ''Content-Type'', str ''text/plain''),
      (str ''User-Agent'', str ''genesisdb-sdk'')]"

section \<open>Request bodies\<close>

text \<open>
  The translation of the options of \<^verbatim>\<open>stream_events\<close> and \<^verbatim>\<open>observe_events\<close> (the
  same statements in both): \<^verbatim>\<open>api_options\<close> after the three \<^verbatim>\<open>if\<close>s.
\<close>

definition translate_key :: "dict \<Rightarrow> pystr \<Rightarrow> pystr \<Rightarrow> dict" where
  "translate_key options snake camel =
     (case map_of options snake of None \<Rightarrow> [] | Some v \<Rightarrow> [(camel, v)])"

definition api_options :: "dict \<Rightarrow> dict" where
  "api_options options =
     translate_key options (str ''lower_bound'') (str ''lowerBound'')
     @ translate_key options (str ''include_lower_bound_event'') (str ''includeLowerBoundEvent'')
     @ translate_key options (str ''latest_by_event_type'') (str ''latestByEventType'')"

text \<open>\<^verbatim>\<open>if options:\<close> is false for \<^verbatim>\<open>None\<close> and for the empty dictionary.\<close>

definition retrieval_body :: "pystr \<Rightarrow> dict option \<Rightarrow> dict" where
  "retrieval_body subject options =
     (case options of
        Some (x # xs) \<Rightarrow>
          [(str ''subject'', PStr subject), (str ''options'', PDict (api_options (x # xs)))]
      | _ \<Rightarrow> [(str ''subject'', PStr subject)])"

text \<open>
  \<^verbatim>\<open>key in x\<close> and \<^verbatim>\<open>x[key]\<close> for a string key, as \<^verbatim>\<open>commit_events\<close> applies them to the
  value of \<^verbatim>\<open>event['options']\<close>: membership in a dictionary is by key, in a list by
  element, in a string by substring; the other values are not iterable. Only a dictionary
  can be indexed by a string.
\<close>

fun py_contains :: "pystr \<Rightarrow> pyval \<Rightarrow> error + bool" where
  "py_contains key (PDict kv) = Inr (map_of kv key \<noteq> None)"
| "py_contains key (PList xs) = Inr (PStr key \<in> set xs)"
| "py_contains key (PStr s) = Inr (sublist key s)"
| "py_contains key _ = Inl TypeError"

fun py_getitem :: "pyval \<Rightarrow> pystr \<Rightarrow> error + pyval" where
  "py_getitem (PDict kv) key = (case map_of kv key of None \<Rightarrow> Inl (KeyError key) | Some v \<Rightarrow> Inr v)"
| "py_getitem _ key = Inl TypeError"

text \<open>\<^verbatim>\<open>event[key]\<close> on an event dictionary.\<close>

definition lookup :: "dict \<Rightarrow> pystr \<Rightarrow> error + pyval" where
  "lookup d key = (case map_of d key of None \<Rightarrow> Inl (KeyError key) | Some v \<Rightarrow> Inr v)"

text \<open>The body of the \<^verbatim>\<open>for event in events\<close> loop of \<^verbatim>\<open>commit_events\<close>: \<^verbatim>\<open>event_data\<close>.\<close>

definition format_event :: "dict \<Rightarrow> error + pyval" where
  "format_event event =
     (case lookup event (str ''source'') of
        Inl e \<Rightarrow> Inl e
      | Inr source \<Rightarrow>
     (case lookup event (str ''subject'') of
        Inl e \<Rightarrow> Inl e
      | Inr subject \<Rightarrow>
     (case lookup event (str ''type'') of
        Inl e \<Rightarrow> Inl e
      | Inr type \<Rightarrow>
     (case lookup event (str ''data'') of
        Inl e \<Rightarrow> Inl e
      | Inr data \<Rightarrow>
     (let event_data = [(str ''source'', source), (str ''subject'', subject),
                        (str ''type'', type), (str ''data'', data)]
      in (case map_of event (str ''options'') of
            None \<Rightarrow> Inr (PDict event_data)
          | Some opts \<Rightarrow>
              (case py_contains (str ''store_data_as_reference'') opts of
                 Inl e \<Rightarrow> Inl e
               | Inr False \<Rightarrow> Inr (PDict (event_data @ [(str ''options'', PDict [])]))
               | Inr True \<Rightarrow>
                   (case py_getitem opts (str ''store_data_as_reference'') of
                      Inl e \<Rightarrow> Inl e
                    | Inr v \<Rightarrow>
                        Inr (PDict (event_data
                               @ [(str ''options'',
                                   PDict [(str ''storeDataAsReference'', v)])]))))))))))"

fun format_events :: "dict list \<Rightarrow> pyval list \<Rightarrow> error + pyval list" where
  "format_events [] formatted_events = Inr formatted_events"
| "format_events (event # events) formatted_events =
     (case format_event event of
        Inl e \<Rightarrow> Inl e
      | Inr event_data \<Rightarrow> format_events events (formatted_events @ [event_data]))"

text \<open>\<^verbatim>\<open>if preconditions and len(preconditions) > 0\<close>.\<close>

definition commit_body :: "pyval list \<Rightarrow> pyval list option \<Rightarrow> dict" where
  "commit_body formatted_events preconditions =
     (case preconditions of
        Some (p # ps) \<Rightarrow>
          [(str ''events'', PList formatted_events), (str ''preconditions'', PList (p # ps))]
      | _ \<Rightarrow> [(str ''events'', PList formatted_events)])"

section \<open>The operations\<close>

text \<open>The one request of each operation: \<^verbatim>\<open>url\<close>, \<^verbatim>\<open>headers\<close> and the \<^verbatim>\<open>json=\<close> argument.\<close>

definition stream_request :: "client \<Rightarrow> pystr \<Rightarrow> dict option \<Rightarrow> request" where
  "stream_request self subject options =
     \<lparr>verb = POST, url = endpoint self (str ''stream''), headers = ndjson_headers self,
      json_body = Some (PDict (retrieval_body subject options))\<rparr>"

definition commit_request :: "client \<Rightarrow> pyval list \<Rightarrow> pyval list option \<Rightarrow> request" where
  "commit_request self formatted_events preconditions =
     \<lparr>verb = POST, url = endpoint self (str ''commit''), headers = json_headers self,
      json_body = Some (PDict (commit_body formatted_events preconditions))\<rparr>"

definition erase_request :: "client \<Rightarrow> pystr \<Rightarrow> request" where
  "erase_request self subject =
     \<lparr>verb = POST, url = endpoint self (str ''erase''), headers = json_headers self,
      json_body = Some (PDict [(str ''subject'', PStr subject)])\<rparr>"

definition audit_request :: "client \<Rightarrow> request" where
  "audit_request self =
     \<lparr>verb = GET, url = endpoint self (str ''status/audit''), headers = plain_headers self,
      json_body = None\<rparr>"

definition ping_request :: "client \<Rightarrow> request" where
  "ping_request self =
     \<lparr>verb = GET, url = endpoint self (str ''status/ping''), headers = plain_headers self,
      json_body = None\<rparr>"

definition q_request :: "client \<Rightarrow> pystr \<Rightarrow> request" where
  "q_request self query =
     \<lparr>verb = POST, url = endpoint self (str ''q''), headers = ndjson_headers self,
      json_body = Some (PDict [(str ''query'', PStr query)])\<rparr>"

definition observe_request :: "client \<Rightarrow> pystr \<Rightarrow> dict option \<Rightarrow> request" where
  "observe_request self subject options =
     \<lparr>verb = POST, url = endpoint self (str ''observe''), headers = ndjson_headers self,
      json_body = Some (PDict (retrieval_body subject options))\<rparr>"

text \<open>
  Each operation issues its one request inside \<^verbatim>\<open>try\<close>; \<open>finish\<close> is the part after
  \<^verbatim>\<open>raise_for_status\<close>, which returns what it printed and its result or exception.
\<close>

definition perform :: "transport \<Rightarrow> request \<Rightarrow> pystr
    \<Rightarrow> (response \<Rightarrow> printed list \<times> (error + 'a)) \<Rightarrow> 'a outcome" where
  "perform send req what finish =
     (case send req of
        Inl e \<Rightarrow> \<lparr>requests = [req], prints = [report what e], result = Inl e\<rparr>
      | Inr response \<Rightarrow>
          (case raise_for_status response of
             Inl e \<Rightarrow> \<lparr>requests = [req], prints = [report what e], result = Inl e\<rparr>
           | Inr _ \<Rightarrow>
               (case finish response of
                  (out, Inl e) \<Rightarrow>
                    \<lparr>requests = [req], prints = out @ [report what e], result = Inl e\<rparr>
                | (out, Inr v) \<Rightarrow> \<lparr>requests = [req], prints = out, result = Inr v\<rparr>)))"

definition stream_events :: "client \<Rightarrow> transport \<Rightarrow> loader \<Rightarrow> 'e adapter \<Rightarrow> pystr \<Rightarrow> dict option
    \<Rightarrow> 'e list outcome" where
  "stream_events self send loads mk subject options =
     perform send (stream_request self subject options)
       (str ''streaming events'')
       (\<lambda>response. stream_body loads mk (response_text response))"

definition commit_events :: "client \<Rightarrow> transport \<Rightarrow> dict list \<Rightarrow> pyval list option \<Rightarrow> unit outcome" where
  "commit_events self send events preconditions =
     (case format_events events [] of
        Inl e \<Rightarrow> \<lparr>requests = [], prints = [], result = Inl e\<rparr>
      | Inr formatted_events \<Rightarrow>
          perform send (commit_request self formatted_events preconditions)
            (str ''committing events'')
            (\<lambda>response. ([], Inr ())))"

definition erase_data :: "client \<Rightarrow> transport \<Rightarrow> pystr \<Rightarrow> unit outcome" where
  "erase_data self send subject =
     perform send (erase_request self subject)
       (str ''erasing data'')
       (\<lambda>response. ([], Inr ()))"

definition audit :: "client \<Rightarrow> transport \<Rightarrow> pystr outcome" where
  "audit self send =
     perform send (audit_request self)
       (str ''running audit'')
       (\<lambda>response. ([], Inr (response_text response)))"

definition ping :: "client \<Rightarrow> transport \<Rightarrow> pystr outcome" where
  "ping self send =
     perform send (ping_request self)
       (str ''pinging'')
       (\<lambda>response. ([], Inr (response_text response)))"

definition q :: "client \<Rightarrow> transport \<Rightarrow> loader \<Rightarrow> pystr \<Rightarrow> pyval list outcome" where
  "q self send loads query =
     perform send (q_request self query)
       (str ''querying'')
       (\<lambda>response. q_body loads (response_text response))"

definition query_events :: "client \<Rightarrow> transport \<Rightarrow> loader \<Rightarrow> pystr \<Rightarrow> pyval list outcome" where
  "query_events self send loads query = q self send loads query"

text \<open>
  \<^verbatim>\<open>observe_events\<close> is a generator: its outcome is what it emitted, in order, and the
  exception that ended it, if any.
\<close>

record 'e observation =
  obs_requests :: "request list"
  emitted :: "'e emitted list"
  raised :: "error option"

definition observe_events :: "client \<Rightarrow> transport \<Rightarrow> loader \<Rightarrow> 'e adapter \<Rightarrow> pystr \<Rightarrow> dict option
    \<Rightarrow> 'e observation" where
  "observe_events self send loads mk subject options =
     (let what = str ''observing events'';
          req = observe_request self subject options
      in case send req of
           Inl e \<Rightarrow> \<lparr>obs_requests = [req], emitted = [Print (report what e)], raised = Some e\<rparr>
         | Inr response \<Rightarrow>
             (case raise_for_status response of
                Inl e \<Rightarrow>
                  \<lparr>obs_requests = [req], emitted = [Print (report what e)], raised = Some e\<rparr>
              | Inr _ \<Rightarrow>
                  (case observe_chunks loads mk (byte_chunks response) [] of
                     (out, Some e) \<Rightarrow>
                       \<lparr>obs_requests = [req], emitted = out @ [Print (report what e)],
                        raised = Some e\<rparr>
                   | (out, None) \<Rightarrow> \<lparr>obs_requests = [req], emitted = out, raised = None\<rparr>)))"

section \<open>Example collaborators\<close>

text \<open>
  A loader and an adapter to instantiate the theorems at concrete inputs. The loader
  does what \<^verbatim>\<open>json.loads\<close> does on the lines of the examples, among them a line of more
  than 4300 digits, and rejects every other string; the adapter has the required-field
  check of the \<^verbatim>\<open>CloudEvent\<close> constructor (\<^verbatim>\<open>source\<close> and \<^verbatim>\<open>type\<close>).
\<close>

definition example_loads :: loader where
  \<open>example_loads s =
     (if 4300 < length s \<and> list_all (\<lambda>c. 48 \<le> c \<and> c \<le> 57) s
        then Inl (ValueError (str ''Exceeds the limit (4300 digits) for integer string conversion''))
      else if s = str ''{"a":1}'' then Inr (PDict [(str ''a'', PInt 1)])
      else if s = str ''{"a":2}'' then Inr (PDict [(str ''a'', PInt 2)])
      else if s = str ''{"payload":""}'' then Inr (PDict [(str ''payload'', PStr [])])
      else if s = str ''{"id":"1"}'' then Inr (PDict [(str ''id'', PStr (str ''1''))])
      else if s = str ''{"source":"s","type":"t"}''
        then Inr (PDict [(str ''source'', PStr (str ''s'')), (str ''type'', PStr (str ''t''))])
      else Inl JSONDecodeError)\<close>

definition example_adapter :: "dict adapter" where
  "example_adapter v =
     (case v of
        PDict kv \<Rightarrow>
          if map_of kv (str ''source'') = None then Inl (MissingRequiredFields (str ''source''))
          else if map_of kv (str ''type'') = None then Inl (MissingRequiredFields (str ''type''))
          else Inr kv
      | _ \<Rightarrow> Inl AttributeError)"

definition example_client :: client where
  "example_client =
     \<lparr>api_url = str ''http://localhost:8080'', api_version = str ''v1'',
      auth_token = str ''secret''\<rparr>"

text \<open>
  Transports that answer every request with the same response: one with a body read as a
  whole, one with a body delivered in chunks.
\<close>

definition respond :: "nat \<Rightarrow> pystr \<Rightarrow> pystr \<Rightarrow> transport" where
  "respond code reason body req =
     Inr \<lparr>status_code = code, reason_phrase = reason, response_text = body, byte_chunks = []\<rparr>"

definition respond_chunks :: "nat \<Rightarrow> pystr \<Rightarrow> pybytes list \<Rightarrow> transport" where
  "respond_chunks code reason chunks req =
     Inr \<lparr>status_code = code, reason_phrase = reason, response_text = [], byte_chunks = chunks\<rparr>"

abbreviation ascii :: "string \<Rightarrow> pybytes" where
  "ascii s \<equiv> map of_char s"

section \<open>Notions of the statements\<close>

text \<open>
  A setting ``after combining the explicit config object with environment variables'':
  the value of the config entry when it is there and not empty, else the value of the
  environment variable, else the empty string.
\<close>

definition combined_setting :: "(pystr \<times> pystr) list option \<Rightarrow> environ \<Rightarrow> pystr \<Rightarrow> pystr \<Rightarrow> pystr" where
  "combined_setting config env key var =
     (case config of
        None \<Rightarrow> getenv_or_empty env var
      | Some c \<Rightarrow> config_or_env c key env var)"

text \<open>The required settings that have no value, each named by its environment variable.\<close>

definition missing_settings :: "(pystr \<times> pystr) list option \<Rightarrow> environ \<Rightarrow> pystr list" where
  "missing_settings config env =
     map snd (filter (\<lambda>(key, var). combined_setting config env key var = [])
       [(str ''api_url'', str ''GENESISDB_API_URL''),
        (str ''api_version'', str ''GENESISDB_API_VERSION''),
        (str ''auth_token'', str ''GENESISDB_AUTH_TOKEN'')])"

text \<open>
  For the decoding of a list of lines: the values of the lines that parse, the decode
  errors of the lines that are not JSON, each in the order of the lines; that no line
  makes \<^verbatim>\<open>json.loads\<close> raise anything but \<^verbatim>\<open>JSONDecodeError\<close>; the events of the values the
  adapter accepts, and that it accepts them all.
\<close>

definition nonblank :: "pystr list \<Rightarrow> pystr list" where
  "nonblank ls = filter (\<lambda>l. l \<noteq> []) (map strip ls)"







text \<open>
  For \<^verbatim>\<open>commit_events\<close>: the keys every event must have, the documented type of the
  entry \<^verbatim>\<open>options\<close> (a dictionary, when present), and the event of the request body as
  the claim describes it: the four fields, and the translated options when set.
\<close>

definition required_keys :: "pystr list" where
  "required_keys = [str ''source'', str ''subject'', str ''type'', str ''data'']"

definition has_required_keys :: "dict \<Rightarrow> bool" where
  "has_required_keys event \<longleftrightarrow> list_all (\<lambda>k. map_of event k \<noteq> None) required_keys"

definition options_documented :: "dict \<Rightarrow> bool" where
  "options_documented event \<longleftrightarrow>
     (case map_of event (str ''options'') of
        None \<Rightarrow> True
      | Some (PDict _) \<Rightarrow> True
      | Some _ \<Rightarrow> False)"

definition wire_event :: "dict \<Rightarrow> pyval" where
  "wire_event event =
     PDict (concat (map (\<lambda>k. case map_of event k of None \<Rightarrow> [] | Some v \<Rightarrow> [(k, v)]) required_keys)
            @ (case map_of event (str ''options'') of
                 Some (PDict opts) \<Rightarrow>
                   [(str ''options'',
                     PDict (case map_of opts (str ''store_data_as_reference'') of
                              None \<Rightarrow> []
                            | Some v \<Rightarrow> [(str ''storeDataAsReference'', v)]))]
               | _ \<Rightarrow> []))"

section \<open>Splitting and stripping\<close>

lemma set_dropWhile_all: "(\<forall>x\<in>set (dropWhile P s). P x) \<longleftrightarrow> (\<forall>x\<in>set s. P x)"
proof
  assume a: "\<forall>x\<in>set (dropWhile P s). P x"
  show "\<forall>x\<in>set s. P x"
  proof (cases "dropWhile P s")
    case Nil then show ?thesis by simp
  next
    case (Cons y ys)
    then have "\<not> P y" using hd_dropWhile [of P s] by simp
    with a Cons show ?thesis by simp
  qed
next
  assume "\<forall>x\<in>set s. P x"
  then show "\<forall>x\<in>set (dropWhile P s). P x" using set_dropWhileD by fastforce
qed

lemma strip_eq_Nil_iff: "strip s = [] \<longleftrightarrow> (\<forall>c\<in>set s. isspace c)"
  by (simp add: strip_def set_dropWhile_all)

lemma strip_Nil [simp]: "strip [] = []"
  by (simp add: strip_def)





lemma split_nl_not_Nil [simp]: "split_nl t \<noteq> []"
proof (induction t)
  case Nil show ?case by simp
next
  case (Cons c t)
  then show ?case by (cases "split_nl t") auto
qed

lemma cons_first_append: "xs \<noteq> [] \<Longrightarrow> cons_first c (xs @ ys) = cons_first c xs @ ys"
  by (cases xs) auto

lemma split_nl_append: "split_nl (a @ nl # b) = split_nl a @ split_nl b"
  by (induction a) (auto simp: cons_first_append)

lemma split_nl_no_newline: "nl \<notin> set l \<Longrightarrow> split_nl l = [l]"
  by (induction l) auto

lemma split_nl_general:
  "split_nl (x @ y) = butlast (split_nl x) @ split_nl (last (split_nl x) @ y)"
proof (induction x)
  case Nil show ?case by simp
next
  case (Cons c x)
  show ?case
  proof (cases "c = nl")
    case True then show ?thesis using Cons by simp
  next
    case False
    obtain l ls where sp: "split_nl x = l # ls" by (cases "split_nl x") auto
    show ?thesis
    proof (cases ls)
      case Nil
      then show ?thesis using False Cons sp by simp
    next
      case (Cons m ms)
      then show ?thesis using False Cons.IH sp by simp
    qed
  qed
qed

lemma split_nl_segments: "l \<in> set (split_nl t) \<Longrightarrow> nl \<notin> set l"
proof (induction t arbitrary: l)
  case Nil then show ?case by simp
next
  case (Cons c t)
  obtain m ms where sp: "split_nl t = m # ms" by (cases "split_nl t") auto
  show ?case using Cons sp by (auto split: if_splits)
qed







section \<open>The whole-body loops in closed form\<close>







lemma nonblank_Nil [simp]: "nonblank [] = []"
  by (simp add: nonblank_def)










section \<open>The streaming loop, line by line\<close>

lemma split_at_newline:
  assumes "nl \<in> set buffer"
  shows "buffer = takeWhile (\<lambda>c. c \<noteq> nl) buffer
           @ nl # drop (Suc (length (takeWhile (\<lambda>c. c \<noteq> nl) buffer))) buffer"
proof -
  have d: "dropWhile (\<lambda>c. c \<noteq> nl) buffer \<noteq> []" using assms by auto
  then have "hd (dropWhile (\<lambda>c. c \<noteq> nl) buffer) = nl"
    using hd_dropWhile [of "\<lambda>c. c \<noteq> nl" buffer] by simp
  then have "dropWhile (\<lambda>c. c \<noteq> nl) buffer = nl # tl (dropWhile (\<lambda>c. c \<noteq> nl) buffer)"
    using d by (metis list.collapse)
  moreover have "tl (dropWhile (\<lambda>c. c \<noteq> nl) buffer)
      = drop (Suc (length (takeWhile (\<lambda>c. c \<noteq> nl) buffer))) buffer"
    by (simp add: dropWhile_eq_drop drop_Suc tl_drop)
  ultimately show ?thesis
    using takeWhile_dropWhile_id [of "\<lambda>c. c \<noteq> nl" buffer] by simp
qed

lemma takeWhile_no_newline: "nl \<notin> set (takeWhile (\<lambda>c. c \<noteq> nl) buffer)"
  by (auto dest: set_takeWhileD)

lemma butlast_split_nl_append:
  "butlast (split_nl (x @ y)) = butlast (split_nl x) @ butlast (split_nl (last (split_nl x) @ y))"
  using split_nl_general [of x y] by (simp add: butlast_append)

lemma drain_step:
  assumes "nl \<in> set buffer"
  shows "drain loads mk buffer =
     (observe_line loads mk (takeWhile (\<lambda>c. c \<noteq> nl) buffer)
        @ fst (drain loads mk (drop (Suc (length (takeWhile (\<lambda>c. c \<noteq> nl) buffer))) buffer)),
      snd (drain loads mk (drop (Suc (length (takeWhile (\<lambda>c. c \<noteq> nl) buffer))) buffer)))"
  using assms by (subst drain.simps) (simp add: Let_def split: prod.splits)

lemma drain_stop: "nl \<notin> set buffer \<Longrightarrow> drain loads mk buffer = ([], buffer)"
  by (subst drain.simps) simp

lemma drain_lines:
  "drain loads mk buffer =
     (concat (map (observe_line loads mk) (butlast (split_nl buffer))), last (split_nl buffer))"
proof (induction loads mk buffer rule: drain.induct)
  case (1 loads mk buffer)
  show ?case
  proof (cases "nl \<in> set buffer")
    case False
    then show ?thesis by (simp add: split_nl_no_newline drain_stop)
  next
    case True
    define line where "line = takeWhile (\<lambda>c. c \<noteq> nl) buffer"
    define rest where "rest = drop (Suc (length line)) buffer"
    have b: "buffer = line @ nl # rest"
      unfolding rest_def line_def using True by (rule split_at_newline)
    have "nl \<notin> set line" unfolding line_def by (rule takeWhile_no_newline)
    then have "split_nl (line @ nl # rest) = line # split_nl rest"
      by (simp add: split_nl_append split_nl_no_newline)
    then have sp: "split_nl buffer = line # split_nl rest"
      using b by simp
    have ih: "drain loads mk rest =
        (concat (map (observe_line loads mk) (butlast (split_nl rest))), last (split_nl rest))"
      using 1 [OF True line_def rest_def] .
    have "drain loads mk buffer =
        (observe_line loads mk line @ fst (drain loads mk rest), snd (drain loads mk rest))"
      unfolding line_def rest_def using True by (rule drain_step)
    then show ?thesis by (simp add: ih sp)
  qed
qed

lemma observe_chunks_lines:
  assumes "list_all2 (\<lambda>chunk text. utf8_decode chunk = Some text) chunks texts"
    and "nl \<notin> set buffer"
  shows "observe_chunks loads mk chunks buffer =
     (concat (map (observe_line loads mk) (butlast (split_nl (buffer @ concat texts)))), None)"
  using assms
proof (induction chunks texts arbitrary: buffer rule: list_all2_induct)
  case Nil
  then show ?case by (simp add: split_nl_no_newline)
next
  case (Cons chunk chunks t texts)
  have "nl \<notin> set (last (split_nl (buffer @ t)))"
    using split_nl_segments [of "last (split_nl (buffer @ t))" "buffer @ t"] by simp
  moreover have "butlast (split_nl ((buffer @ t) @ concat texts)) =
      butlast (split_nl (buffer @ t))
      @ butlast (split_nl (last (split_nl (buffer @ t)) @ concat texts))"
    by (rule butlast_split_nl_append)
  ultimately show ?case
    using Cons.hyps(1) Cons.IH [of "last (split_nl (buffer @ t))"]
    by (simp add: drain_lines)
qed



section \<open>Operations on a response\<close>

lemma raise_for_status_ok:
  "200 \<le> status_code r \<and> status_code r < 300 \<Longrightarrow> raise_for_status r = Inr ()"
  by (simp add: raise_for_status_def)

lemma raise_for_status_error:
  "status_code r < 200 \<or> 300 \<le> status_code r \<Longrightarrow>
   raise_for_status r = Inl (HTTPStatusError (status_code r) (reason_phrase r))"
  by (auto simp: raise_for_status_def)

lemma perform_success:
  assumes "send req = Inr r" and "200 \<le> status_code r \<and> status_code r < 300"
    and "finish r = (out, Inr v)"
  shows "perform send req what finish = \<lparr>requests = [req], prints = out, result = Inr v\<rparr>"
  using assms by (simp add: perform_def raise_for_status_ok)

lemma perform_http_error:
  assumes "send req = Inr r" and "status_code r < 200 \<or> 300 \<le> status_code r"
  shows "perform send req what finish =
     \<lparr>requests = [req], prints = [Api_Error (status_code r) (reason_phrase r)],
      result = Inl (HTTPStatusError (status_code r) (reason_phrase r))\<rparr>"
  using assms by (simp add: perform_def raise_for_status_error report_def)

lemma perform_finish_error:
  assumes "send req = Inr r" and "200 \<le> status_code r \<and> status_code r < 300"
    and "finish r = (out, Inl e)"
  shows "perform send req what finish =
     \<lparr>requests = [req], prints = out @ [report what e], result = Inl e\<rparr>"
  using assms by (simp add: perform_def raise_for_status_ok)


section \<open>Empty bodies\<close>

text \<open>
  Claim C6. When the body of a 2xx response is empty or consists of whitespace only,
  \<^verbatim>\<open>stream_events\<close> and \<^verbatim>\<open>q\<close> (and so \<^verbatim>\<open>query_events\<close>) return the empty list: one
  request is issued, nothing is printed and nothing is raised.
\<close>

theorem empty_body_no_results:
  assumes "\<forall>c\<in>set (response_text r). isspace c"
    and "200 \<le> status_code r \<and> status_code r < 300"
    and "send (stream_request self subject options) = Inr r"
    and "send (q_request self query) = Inr r"
  shows "stream_events self send loads mk subject options =
           \<lparr>requests = [stream_request self subject options], prints = [], result = Inr []\<rparr>
       \<and> q self send loads query =
           \<lparr>requests = [q_request self query], prints = [], result = Inr []\<rparr>
       \<and> query_events self send loads query =
           \<lparr>requests = [q_request self query], prints = [], result = Inr []\<rparr>"
proof -
  have blank: "strip (response_text r) = []"
    using assms(1) by (simp add: strip_eq_Nil_iff)
  have s: "stream_body loads mk (response_text r) = ([], Inr [])"
    using blank by (simp add: stream_body_def)
  have b: "q_body loads (response_text r) = ([], Inr [])"
    using blank by (simp add: q_body_def)
  have "stream_events self send loads mk subject options =
      \<lparr>requests = [stream_request self subject options], prints = [], result = Inr []\<rparr>"
    unfolding stream_events_def using assms(3) assms(2) s by (rule perform_success)
  moreover have "q self send loads query =
      \<lparr>requests = [q_request self query], prints = [], result = Inr []\<rparr>"
    unfolding q_def using assms(4) assms(2) by (rule perform_success) (simp add: b)
  ultimately show ?thesis by (simp add: query_events_def)
qed

theorem empty_body_no_results_witness:
  "list_all isspace (str '' \<newline>  '')
   \<and> result (stream_events example_client (respond 200 (str ''OK'') (str '' \<newline>  ''))
        example_loads example_adapter (str ''/user'') None) = Inr []
   \<and> result (q example_client (respond 200 (str ''OK'') (str '' \<newline>  '')) example_loads
        (str ''STREAM e FROM events'')) = Inr []"
proof -
  have h: "\<forall>c\<in>set (str '' \<newline>  ''). isspace c" by (simp add: isspace_def)
  show ?thesis
    using h empty_body_no_results [of
        "\<lparr>status_code = 200, reason_phrase = str ''OK'', response_text = str '' \<newline>  '',
          byte_chunks = []\<rparr>"
        "respond 200 (str ''OK'') (str '' \<newline>  '')" example_client "str ''/user''" None
        "str ''STREAM e FROM events''" example_loads example_adapter]
    by (simp add: respond_def isspace_def)
qed

section \<open>The unterminated remainder\<close>








section \<open>Malformed lines\<close>







section \<open>Keepalive objects and adapter failures\<close>




lemma stream_lines_adapter_failure:
  assumes "strip l \<noteq> []" and "loads (strip l) = Inr v" and "mk v = Inl e"
  shows "stream_lines loads mk (l # ls) out events = (out, Inl e)"
  using assms by (simp add: Let_def)

text \<open>
  Claim C4, at an input where it fails. The first line of the body is valid JSON that
  the adapter rejects (it has no \<^verbatim>\<open>source\<close>). \<^verbatim>\<open>stream_events\<close> does not skip it: the
  exception leaves the loop, is printed by the outer handler and raised, and the event of
  the second line is lost. \<^verbatim>\<open>observe_events\<close> on the same lines prints the failure and
  goes on to yield the second event.
\<close>

theorem adapter_failure_aborts_stream_events:
  \<open>stream_events example_client
       (respond 200 (str ''OK'') (str ''{"id":"1"}\<newline>{"source":"s","type":"t"}''))
       example_loads example_adapter (str ''/user'') None
     = \<lparr>requests = [stream_request example_client (str ''/user'') None],
        prints = [Error_While (str ''streaming events'') (MissingRequiredFields (str ''source''))],
        result = Inl (MissingRequiredFields (str ''source''))\<rparr>
   \<and> observe_chunks example_loads example_adapter
       [ascii ''{"id":"1"}\<newline>{"source":"s","type":"t"}\<newline>''] []
     = ([Print (CloudEvent_Error (MissingRequiredFields (str ''source''))),
         Yield [(str ''source'', PStr (str ''s'')), (str ''type'', PStr (str ''t''))]], None)\<close>
  by (simp add: stream_events_def perform_def respond_def raise_for_status_def stream_body_def
      strip_def isspace_def Let_def example_loads_def example_adapter_def report_def
      drain.simps observe_line_def json_str_def dict_len_def continuation_def)

section \<open>Option translation\<close>

lemma map_of_translate_key:
  "map_of (translate_key options snake camel) k = (if k = camel then map_of options snake else None)"
  by (simp add: translate_key_def split: option.splits)

lemma map_of_api_options:
  "map_of (api_options options) k =
     (if k = str ''lowerBound'' then map_of options (str ''lower_bound'')
      else if k = str ''includeLowerBoundEvent'' then map_of options (str ''include_lower_bound_event'')
      else if k = str ''latestByEventType'' then map_of options (str ''latest_by_event_type'')
      else None)"
  by (simp add: api_options_def map_add_def map_of_translate_key split: option.splits)

lemma distinct_api_options: "distinct (map fst (api_options options))"
  by (auto simp: api_options_def translate_key_def split: option.splits)

text \<open>
  Claim C5. The request body of \<^verbatim>\<open>stream_events\<close> and \<^verbatim>\<open>observe_events\<close> has the key
  \<^verbatim>\<open>options\<close> only for a non-empty options dictionary \<open>d\<close>, and then its value has
  exactly the camelCase keys whose snake_case key is in \<open>d\<close>, each once and with the
  caller's value: \<^verbatim>\<open>lowerBound\<close> for \<^verbatim>\<open>lower_bound\<close>, \<^verbatim>\<open>includeLowerBoundEvent\<close> for
  \<^verbatim>\<open>include_lower_bound_event\<close>, \<^verbatim>\<open>latestByEventType\<close> for \<^verbatim>\<open>latest_by_event_type\<close>.
  No other key is there, so a field the caller left out does not appear at all.
\<close>

theorem options_translation:
  "json_body (stream_request self subject options) = Some (PDict (retrieval_body subject options))
   \<and> json_body (observe_request self subject options) = Some (PDict (retrieval_body subject options))
   \<and> retrieval_body subject None = [(str ''subject'', PStr subject)]
   \<and> retrieval_body subject (Some []) = [(str ''subject'', PStr subject)]
   \<and> (d \<noteq> [] \<longrightarrow>
        retrieval_body subject (Some d) =
          [(str ''subject'', PStr subject), (str ''options'', PDict (api_options d))])
   \<and> distinct (map fst (api_options d))
   \<and> map_of (api_options d) k =
       (if k = str ''lowerBound'' then map_of d (str ''lower_bound'')
        else if k = str ''includeLowerBoundEvent'' then map_of d (str ''include_lower_bound_event'')
        else if k = str ''latestByEventType'' then map_of d (str ''latest_by_event_type'')
        else None)"
proof -
  have "d \<noteq> [] \<longrightarrow>
        retrieval_body subject (Some d) =
          [(str ''subject'', PStr subject), (str ''options'', PDict (api_options d))]"
    by (simp add: retrieval_body_def split: list.splits)
  then show ?thesis
    by (simp add: stream_request_def observe_request_def distinct_api_options map_of_api_options
        retrieval_body_def)
qed

theorem options_translation_witness:
  "json_body (stream_request example_client (str ''/user'')
      (Some [(str ''lower_bound'', PStr (str ''ID'')),
             (str ''include_lower_bound_event'', PBool True)]))
   = Some (PDict [(str ''subject'', PStr (str ''/user'')),
                  (str ''options'', PDict [(str ''lowerBound'', PStr (str ''ID'')),
                                           (str ''includeLowerBoundEvent'', PBool True)])])"
  using options_translation [of example_client "str ''/user''"
      "Some [(str ''lower_bound'', PStr (str ''ID'')), (str ''include_lower_bound_event'', PBool True)]"
      "[(str ''lower_bound'', PStr (str ''ID'')), (str ''include_lower_bound_event'', PBool True)]"
      "[]"]
  by (simp add: api_options_def translate_key_def)

section \<open>HTTP errors\<close>

lemma observe_events_http_error:
  assumes "send (observe_request self subject options) = Inr r"
    and "status_code r < 200 \<or> 300 \<le> status_code r"
  shows "observe_events self send loads mk subject options =
     \<lparr>obs_requests = [observe_request self subject options],
      emitted = [Print (Api_Error (status_code r) (reason_phrase r))],
      raised = Some (HTTPStatusError (status_code r) (reason_phrase r))\<rparr>"
  using assms by (simp add: observe_events_def Let_def raise_for_status_error report_def)

text \<open>
  Claim C8. When the response to the request of an operation has a status outside
  200..299, the operation raises \<^verbatim>\<open>HTTPStatusError\<close> with that status code and reason,
  after printing \<^verbatim>\<open>API Error: <code> <reason>\<close>, and it has issued exactly one request.
  This holds for every operation (for \<^verbatim>\<open>commit_events\<close> once the events are formatted).
\<close>

theorem non_2xx_raises:
  assumes "status_code r < 200 \<or> 300 \<le> status_code r"
  shows "(send (stream_request self subject options) = Inr r \<longrightarrow>
          stream_events self send loads mk subject options =
            \<lparr>requests = [stream_request self subject options],
             prints = [Api_Error (status_code r) (reason_phrase r)],
             result = Inl (HTTPStatusError (status_code r) (reason_phrase r))\<rparr>)
       \<and> (format_events events [] = Inr formatted
            \<and> send (commit_request self formatted preconditions) = Inr r \<longrightarrow>
          commit_events self send events preconditions =
            \<lparr>requests = [commit_request self formatted preconditions],
             prints = [Api_Error (status_code r) (reason_phrase r)],
             result = Inl (HTTPStatusError (status_code r) (reason_phrase r))\<rparr>)
       \<and> (send (erase_request self subject) = Inr r \<longrightarrow>
          erase_data self send subject =
            \<lparr>requests = [erase_request self subject],
             prints = [Api_Error (status_code r) (reason_phrase r)],
             result = Inl (HTTPStatusError (status_code r) (reason_phrase r))\<rparr>)
       \<and> (send (audit_request self) = Inr r \<longrightarrow>
          audit self send =
            \<lparr>requests = [audit_request self],
             prints = [Api_Error (status_code r) (reason_phrase r)],
             result = Inl (HTTPStatusError (status_code r) (reason_phrase r))\<rparr>)
       \<and> (send (ping_request self) = Inr r \<longrightarrow>
          ping self send =
            \<lparr>requests = [ping_request self],
             prints = [Api_Error (status_code r) (reason_phrase r)],
             result = Inl (HTTPStatusError (status_code r) (reason_phrase r))\<rparr>)
       \<and> (send (q_request self query) = Inr r \<longrightarrow>
          q self send loads query =
            \<lparr>requests = [q_request self query],
             prints = [Api_Error (status_code r) (reason_phrase r)],
             result = Inl (HTTPStatusError (status_code r) (reason_phrase r))\<rparr>
          \<and> query_events self send loads query =
            \<lparr>requests = [q_request self query],
             prints = [Api_Error (status_code r) (reason_phrase r)],
             result = Inl (HTTPStatusError (status_code r) (reason_phrase r))\<rparr>)
       \<and> (send (observe_request self subject options) = Inr r \<longrightarrow>
          observe_events self send loads mk subject options =
            \<lparr>obs_requests = [observe_request self subject options],
             emitted = [Print (Api_Error (status_code r) (reason_phrase r))],
             raised = Some (HTTPStatusError (status_code r) (reason_phrase r))\<rparr>)"
  using assms
  by (simp add: stream_events_def commit_events_def erase_data_def audit_def ping_def q_def
      query_events_def perform_http_error observe_events_http_error)

theorem non_2xx_raises_witness:
  "ping example_client (respond 503 (str ''Service Unavailable'') [])
     = \<lparr>requests = [ping_request example_client],
        prints = [Api_Error 503 (str ''Service Unavailable'')],
        result = Inl (HTTPStatusError 503 (str ''Service Unavailable''))\<rparr>
   \<and> raised (observe_events example_client (respond 404 (str ''Not Found'') []) example_loads
        example_adapter (str ''/user'') None)
     = Some (HTTPStatusError 404 (str ''Not Found''))"
  using non_2xx_raises [of
      "\<lparr>status_code = 503, reason_phrase = str ''Service Unavailable'', response_text = [],
        byte_chunks = []\<rparr>"
      "respond 503 (str ''Service Unavailable'') []" example_client "str ''/user''" None
      example_loads example_adapter "[]" "[]" None "[]"]
    non_2xx_raises [of
      "\<lparr>status_code = 404, reason_phrase = str ''Not Found'', response_text = [],
        byte_chunks = []\<rparr>"
      "respond 404 (str ''Not Found'') []" example_client "str ''/user''" None
      example_loads example_adapter "[]" "[]" None "[]"]
  by (simp add: respond_def)

section \<open>Construction of the client\<close>

lemma combined_empty_env_unset:
  "combined_setting config env key var = [] \<Longrightarrow> env_unset env var"
  by (auto simp: combined_setting_def config_or_env_def getenv_or_empty_def env_unset_def
      split: option.splits if_splits)

lemma missing_settings_unset:
  "set (missing_settings config env) \<subseteq> set (filter (env_unset env) required_env_vars)"
  by (auto simp: missing_settings_def required_env_vars_def dest: combined_empty_env_unset)

lemma Client_init_combined:
  "Client_init config env =
     (let self = \<lparr>api_url = combined_setting config env (str ''api_url'') (str ''GENESISDB_API_URL''),
                  api_version =
                    combined_setting config env (str ''api_version'') (str ''GENESISDB_API_VERSION''),
                  auth_token =
                    combined_setting config env (str ''auth_token'') (str ''GENESISDB_AUTH_TOKEN'')\<rparr>
      in if api_url self = [] \<or> api_version self = [] \<or> auth_token self = []
         then (case check_required_env env of Inl e \<Rightarrow> Inl e | Inr _ \<Rightarrow> Inr self)
         else Inr self)"
proof (cases config)
  case None
  then show ?thesis unfolding Client_init_def combined_setting_def by simp
next
  case (Some c)
  show ?thesis
  proof (cases c)
    case Nil
    have "config_or_env [] key env var = getenv_or_empty env var" for key var
      by (simp add: config_or_env_def)
    then show ?thesis unfolding Client_init_def combined_setting_def Some Nil by simp
  next
    case (Cons x xs)
    show ?thesis unfolding Client_init_def combined_setting_def Some Cons by simp
  qed
qed

lemma missing_settings_Nil_iff:
  "missing_settings config env = [] \<longleftrightarrow>
     combined_setting config env (str ''api_url'') (str ''GENESISDB_API_URL'') \<noteq> []
     \<and> combined_setting config env (str ''api_version'') (str ''GENESISDB_API_VERSION'') \<noteq> []
     \<and> combined_setting config env (str ''auth_token'') (str ''GENESISDB_AUTH_TOKEN'') \<noteq> []"
  by (simp add: missing_settings_def)

text \<open>
  Claim C9, as amended. If one of the three required settings has no value after the
  config object and the environment are combined, \<^verbatim>\<open>Client.__init__\<close> raises
  \<^verbatim>\<open>ValueError\<close> at once, and the message enumerates exactly the required environment
  variables that are unset or empty. The variable of every missing setting is among
  them. If no setting is missing, construction succeeds with the combined values, so no
  failure is left for the first use.
\<close>

theorem construction_fails_on_missing_setting:
  "(missing_settings config env \<noteq> [] \<longrightarrow>
      Client_init config env =
        Inl (ValueError (missing_message (filter (env_unset env) required_env_vars)))
      \<and> set (missing_settings config env) \<subseteq> set (filter (env_unset env) required_env_vars))
   \<and> (missing_settings config env = [] \<longrightarrow>
      Client_init config env =
        Inr \<lparr>api_url = combined_setting config env (str ''api_url'') (str ''GENESISDB_API_URL''),
             api_version =
               combined_setting config env (str ''api_version'') (str ''GENESISDB_API_VERSION''),
             auth_token =
               combined_setting config env (str ''auth_token'') (str ''GENESISDB_AUTH_TOKEN'')\<rparr>)"
proof (cases "missing_settings config env = []")
  case True
  then show ?thesis
    using missing_settings_Nil_iff [of config env] by (simp add: Client_init_combined)
next
  case False
  then obtain v where "v \<in> set (missing_settings config env)"
    by (cases "missing_settings config env") auto
  then have "v \<in> set (filter (env_unset env) required_env_vars)"
    using missing_settings_unset [of config env] by blast
  then have "filter (env_unset env) required_env_vars \<noteq> []"
    by (metis empty_iff empty_set)
  then have "check_required_env env =
      Inl (ValueError (missing_message (filter (env_unset env) required_env_vars)))"
    by (simp add: check_required_env_def)
  then show ?thesis
    using False missing_settings_Nil_iff [of config env] missing_settings_unset [of config env]
    by (auto simp: Client_init_combined)
qed

theorem construction_fails_on_missing_setting_witness:
  "Client_init None Map.empty = Inl (ValueError (str
     ''Missing required environment variables: GENESISDB_API_URL, GENESISDB_API_VERSION, GENESISDB_AUTH_TOKEN''))"
  using construction_fails_on_missing_setting [of None Map.empty]
  by (simp add: missing_settings_def combined_setting_def getenv_or_empty_def env_unset_def
      required_env_vars_def missing_message_def)

text \<open>
  Claim C9 as stated fails: the enumeration is of environment variables, not of missing
  settings. With \<^verbatim>\<open>api_url\<close> given in the config object and an empty environment, the
  settings without value are the version and the token, but the message also names
  \<^verbatim>\<open>GENESISDB_API_URL\<close>.
\<close>

theorem config_value_reported_missing:
  "missing_settings (Some [(str ''api_url'', str ''http://localhost:8080'')]) Map.empty
     = [str ''GENESISDB_API_VERSION'', str ''GENESISDB_AUTH_TOKEN'']
   \<and> Client_init (Some [(str ''api_url'', str ''http://localhost:8080'')]) Map.empty
     = Inl (ValueError (missing_message
         [str ''GENESISDB_API_URL'', str ''GENESISDB_API_VERSION'', str ''GENESISDB_AUTH_TOKEN'']))
   \<and> Client_init (Some [(str ''api_url'', str ''http://localhost:8080'')]) Map.empty
     \<noteq> Inl (ValueError (missing_message
          (missing_settings (Some [(str ''api_url'', str ''http://localhost:8080'')]) Map.empty)))"
  by (simp add: missing_settings_def combined_setting_def config_or_env_def getenv_or_empty_def
      Client_init_def check_required_env_def env_unset_def required_env_vars_def
      missing_message_def Let_def)

section \<open>Committing events\<close>

lemma format_event_missing_key:
  assumes "\<not> has_required_keys event"
  shows "\<exists>k\<in>set required_keys. format_event event = Inl (KeyError k)"
  using assms
  by (auto simp: has_required_keys_def required_keys_def format_event_def lookup_def
      split: option.splits)

lemma format_event_wire:
  assumes "has_required_keys event" and "options_documented event"
  shows "format_event event = Inr (wire_event event)"
proof -
  obtain a b c d where k: "map_of event (str ''source'') = Some a"
    "map_of event (str ''subject'') = Some b" "map_of event (str ''type'') = Some c"
    "map_of event (str ''data'') = Some d"
    using assms(1) by (auto simp: has_required_keys_def required_keys_def)
  show ?thesis
  proof (cases "map_of event (str ''options'')")
    case None
    then show ?thesis
      using k by (simp add: format_event_def lookup_def wire_event_def required_keys_def)
  next
    case (Some opts)
    then obtain od where od: "opts = PDict od"
      using assms(2) by (cases opts) (simp_all add: options_documented_def)
    show ?thesis
    proof (cases "map_of od (str ''store_data_as_reference'')")
      case None
      then show ?thesis
        using k Some od
        by (simp add: format_event_def lookup_def wire_event_def required_keys_def)
    next
      case (Some v)
      then show ?thesis
        using k \<open>map_of event (str ''options'') = Some opts\<close> od
        by (simp add: format_event_def lookup_def wire_event_def required_keys_def)
    qed
  qed
qed

lemma format_events_wire:
  assumes "\<forall>e\<in>set events. has_required_keys e \<and> options_documented e"
  shows "format_events events acc = Inr (acc @ map wire_event events)"
  using assms by (induction events arbitrary: acc) (simp_all add: format_event_wire)

lemma format_events_missing_key:
  assumes "\<forall>e\<in>set events. options_documented e" and "\<exists>e\<in>set events. \<not> has_required_keys e"
  shows "\<exists>k\<in>set required_keys. format_events events acc = Inl (KeyError k)"
  using assms
proof (induction events arbitrary: acc)
  case Nil
  then show ?case by simp
next
  case (Cons e events)
  show ?case
  proof (cases "has_required_keys e")
    case False
    then obtain k where "k \<in> set required_keys" "format_event e = Inl (KeyError k)"
      using format_event_missing_key by blast
    then show ?thesis by auto
  next
    case True
    then have "format_event e = Inr (wire_event e)"
      using Cons.prems(1) by (simp add: format_event_wire)
    moreover have "\<exists>k\<in>set required_keys.
        format_events events (acc @ [wire_event e]) = Inl (KeyError k)"
      using Cons.IH [of "acc @ [wire_event e]"] Cons.prems True by auto
    ultimately show ?thesis by simp
  qed
qed

lemma requests_perform: "requests (perform send req what finish) = [req]"
  by (simp add: perform_def split: sum.splits prod.splits)


lemma format_event_Inr_keys:
  assumes "format_event event = Inr v"
  shows "has_required_keys event"
proof (rule ccontr)
  assume "\<not> has_required_keys event"
  then obtain k where "format_event event = Inl (KeyError k)"
    using format_event_missing_key by blast
  with assms show False by simp
qed

lemma py_getitem_after_contains:
  assumes "py_contains key opts = Inr True" and "py_getitem opts key = Inl e"
  shows "e = TypeError"
  using assms by (cases opts) (auto split: option.splits)

lemma format_event_errors:
  assumes "format_event event = Inl e"
  shows "(\<exists>k\<in>set required_keys. e = KeyError k) \<or> e = TypeError"
proof (cases "has_required_keys event")
  case False
  then show ?thesis using format_event_missing_key [of event] assms by auto
next
  case True
  then obtain a b c d where k: "map_of event (str ''source'') = Some a"
    "map_of event (str ''subject'') = Some b" "map_of event (str ''type'') = Some c"
    "map_of event (str ''data'') = Some d"
    by (auto simp: has_required_keys_def required_keys_def)
  show ?thesis
  proof (cases "map_of event (str ''options'')")
    case None
    then show ?thesis using assms k by (simp add: format_event_def lookup_def)
  next
    case (Some opts)
    show ?thesis
    proof (cases "py_contains (str ''store_data_as_reference'') opts")
      case (Inl e')
      then have "e' = TypeError" by (cases opts) auto
      then show ?thesis using assms k Some Inl by (simp add: format_event_def lookup_def)
    next
      case (Inr present)
      note pc = this
      show ?thesis
      proof (cases present)
        case False
        then show ?thesis using assms k Some pc by (simp add: format_event_def lookup_def)
      next
        case True
        note pt = this
        show ?thesis
        proof (cases "py_getitem opts (str ''store_data_as_reference'')")
          case (Inl e')
          have "py_contains (str ''store_data_as_reference'') opts = Inr True"
            using pc pt by simp
          then have "e' = TypeError"
            using Inl by (rule py_getitem_after_contains)
          then show ?thesis
            using assms k Some pc pt Inl by (simp add: format_event_def lookup_def)
        next
          case (Inr v)
          then show ?thesis
            using assms k Some pc pt by (simp add: format_event_def lookup_def)
        qed
      qed
    qed
  qed
qed

lemma format_events_errors:
  assumes "\<exists>e\<in>set events. \<not> has_required_keys e"
  shows "\<exists>err. format_events events acc = Inl err
           \<and> ((\<exists>k\<in>set required_keys. err = KeyError k) \<or> err = TypeError)"
  using assms
proof (induction events arbitrary: acc)
  case Nil
  then show ?case by simp
next
  case (Cons e events)
  show ?case
  proof (cases "format_event e")
    case (Inl err)
    then show ?thesis using format_event_errors [OF Inl] by simp
  next
    case (Inr v)
    then have "has_required_keys e" by (rule format_event_Inr_keys)
    then have "\<exists>e\<in>set events. \<not> has_required_keys e" using Cons.prems by auto
    then show ?thesis using Cons.IH [of "acc @ [v]"] Inr by simp
  qed
qed

text \<open>
  Claim C10, as amended. If some event lacks one of the keys \<^verbatim>\<open>source\<close>, \<^verbatim>\<open>subject\<close>,
  \<^verbatim>\<open>type\<close>, \<^verbatim>\<open>data\<close>, then \<^verbatim>\<open>commit_events\<close> raises before any request is issued, and
  without printing: \<^verbatim>\<open>KeyError\<close> for one of these keys or, where the entry \<^verbatim>\<open>options\<close> of
  an event is not a dictionary, possibly \<^verbatim>\<open>TypeError\<close>; it is \<^verbatim>\<open>KeyError\<close> when every
  entry \<^verbatim>\<open>options\<close> present is a dictionary. If every event has the four keys and its
  entry \<^verbatim>\<open>options\<close>, when present, is a dictionary, the one request is a POST to the
  commit endpoint whose body has under \<^verbatim>\<open>events\<close>, for each event in order, exactly the
  four fields and the translated options when the event has \<^verbatim>\<open>options\<close>, and under
  \<^verbatim>\<open>preconditions\<close> the preconditions when the list is not empty.
\<close>

theorem commit_events_required_keys:
  "((\<exists>e\<in>set events. \<not> has_required_keys e) \<longrightarrow>
      (\<exists>err. commit_events self send events preconditions =
               \<lparr>requests = [], prints = [], result = Inl err\<rparr>
           \<and> ((\<exists>k\<in>set required_keys. err = KeyError k) \<or> err = TypeError)
           \<and> ((\<forall>e\<in>set events. options_documented e) \<longrightarrow>
                (\<exists>k\<in>set required_keys. err = KeyError k))))
   \<and> ((\<forall>e\<in>set events. has_required_keys e \<and> options_documented e) \<longrightarrow>
      requests (commit_events self send events preconditions) =
        [\<lparr>verb = POST, url = endpoint self (str ''commit''), headers = json_headers self,
          json_body =
            Some (PDict ((str ''events'', PList (map wire_event events))
                         # (case preconditions of
                              Some (p # ps) \<Rightarrow> [(str ''preconditions'', PList (p # ps))]
                            | _ \<Rightarrow> [])))\<rparr>])"
proof -
  have a: "\<exists>err. commit_events self send events preconditions =
               \<lparr>requests = [], prints = [], result = Inl err\<rparr>
           \<and> ((\<exists>k\<in>set required_keys. err = KeyError k) \<or> err = TypeError)
           \<and> ((\<forall>e\<in>set events. options_documented e) \<longrightarrow>
                (\<exists>k\<in>set required_keys. err = KeyError k))"
    if h: "\<exists>e\<in>set events. \<not> has_required_keys e"
  proof -
    obtain err where err: "format_events events [] = Inl err"
      "(\<exists>k\<in>set required_keys. err = KeyError k) \<or> err = TypeError"
      using format_events_errors [OF h, of "[]"] by blast
    have "\<exists>k\<in>set required_keys. err = KeyError k" if d: "\<forall>e\<in>set events. options_documented e"
      using format_events_missing_key [OF d h, of "[]"] err(1) by auto
    then show ?thesis using err by (auto simp: commit_events_def)
  qed
  have b: "requests (commit_events self send events preconditions) =
        [\<lparr>verb = POST, url = endpoint self (str ''commit''), headers = json_headers self,
          json_body =
            Some (PDict ((str ''events'', PList (map wire_event events))
                         # (case preconditions of
                              Some (p # ps) \<Rightarrow> [(str ''preconditions'', PList (p # ps))]
                            | _ \<Rightarrow> [])))\<rparr>]"
    if "\<forall>e\<in>set events. has_required_keys e \<and> options_documented e"
  proof -
    have "format_events events [] = Inr ([] @ map wire_event events)"
      using that by (rule format_events_wire)
    then show ?thesis
      by (simp add: commit_events_def requests_perform commit_request_def commit_body_def
          split: option.splits list.splits)
  qed
  show ?thesis using a b by blast
qed

theorem commit_events_required_keys_witness:
  "commit_events example_client (respond 200 (str ''OK'') [])
      [[(str ''source'', PStr (str ''io.genesisdb.app'')), (str ''subject'', PStr (str ''/user'')),
        (str ''type'', PStr (str ''added'')), (str ''data'', PDict [(str ''name'', PStr (str ''John''))])],
       [(str ''source'', PStr (str ''io.genesisdb.app'')), (str ''subject'', PStr (str ''/user'')),
        (str ''type'', PStr (str ''added''))]] None
     = \<lparr>requests = [], prints = [], result = Inl (KeyError (str ''data''))\<rparr>
   \<and> requests (commit_events example_client (respond 200 (str ''OK'') [])
      [[(str ''source'', PStr (str ''io.genesisdb.app'')), (str ''subject'', PStr (str ''/user'')),
        (str ''type'', PStr (str ''added'')), (str ''data'', PDict [(str ''name'', PStr (str ''John''))]),
        (str ''options'', PDict [(str ''store_data_as_reference'', PBool True)])]]
      (Some [PDict [(str ''type'', PStr (str ''isSubjectNew'')),
                    (str ''payload'', PDict [(str ''subject'', PStr (str ''/user''))])]]))
     = [\<lparr>verb = POST, url = str ''http://localhost:8080/api/v1/commit'',
         headers = [(str ''Authorization'', str ''Bearer secret''),
                    (str ''Content-Type'', str ''application/json''),
                    (str ''User-Agent'', str ''genesisdb-sdk'')],
         json_body = Some (PDict
           [(str ''events'', PList
              [PDict [(str ''source'', PStr (str ''io.genesisdb.app'')),
                      (str ''subject'', PStr (str ''/user'')),
                      (str ''type'', PStr (str ''added'')),
                      (str ''data'', PDict [(str ''name'', PStr (str ''John''))]),
                      (str ''options'', PDict [(str ''storeDataAsReference'', PBool True)])]]),
            (str ''preconditions'', PList
              [PDict [(str ''type'', PStr (str ''isSubjectNew'')),
                      (str ''payload'', PDict [(str ''subject'', PStr (str ''/user''))])]])])\<rparr>]"
  using commit_events_required_keys [of
      "[[(str ''source'', PStr (str ''io.genesisdb.app'')), (str ''subject'', PStr (str ''/user'')),
        (str ''type'', PStr (str ''added'')), (str ''data'', PDict [(str ''name'', PStr (str ''John''))])],
       [(str ''source'', PStr (str ''io.genesisdb.app'')), (str ''subject'', PStr (str ''/user'')),
        (str ''type'', PStr (str ''added''))]]"
      example_client "respond 200 (str ''OK'') []" None]
    commit_events_required_keys [of
      "[[(str ''source'', PStr (str ''io.genesisdb.app'')), (str ''subject'', PStr (str ''/user'')),
        (str ''type'', PStr (str ''added'')), (str ''data'', PDict [(str ''name'', PStr (str ''John''))]),
        (str ''options'', PDict [(str ''store_data_as_reference'', PBool True)])]]"
      example_client "respond 200 (str ''OK'') []"
      "Some [PDict [(str ''type'', PStr (str ''isSubjectNew'')),
                    (str ''payload'', PDict [(str ''subject'', PStr (str ''/user''))])]]"]
  by (simp add: options_documented_def has_required_keys_def required_keys_def wire_event_def
      commit_events_def format_event_def lookup_def endpoint_def json_headers_def
      example_client_def)

text \<open>
  Claim C10 as stated fails where the entry \<^verbatim>\<open>options\<close> of an event is \<^verbatim>\<open>None\<close>: the
  test \<^verbatim>\<open>'store_data_as_reference' in event['options']\<close> raises \<^verbatim>\<open>TypeError\<close>. So a later
  event without \<^verbatim>\<open>data\<close> gives \<^verbatim>\<open>TypeError\<close>, not \<^verbatim>\<open>KeyError\<close>, and a list whose events
  all have the four keys gives no request body.
\<close>

theorem options_not_a_dictionary:
  "commit_events example_client (respond 200 (str ''OK'') [])
      [[(str ''source'', PStr (str ''io.genesisdb.app'')), (str ''subject'', PStr (str ''/user'')),
        (str ''type'', PStr (str ''added'')), (str ''data'', PDict []),
        (str ''options'', PNone)],
       [(str ''source'', PStr (str ''io.genesisdb.app'')), (str ''subject'', PStr (str ''/user'')),
        (str ''type'', PStr (str ''added''))]] None
     = \<lparr>requests = [], prints = [], result = Inl TypeError\<rparr>
   \<and> commit_events example_client (respond 200 (str ''OK'') [])
      [[(str ''source'', PStr (str ''io.genesisdb.app'')), (str ''subject'', PStr (str ''/user'')),
        (str ''type'', PStr (str ''added'')), (str ''data'', PDict []),
        (str ''options'', PNone)]] None
     = \<lparr>requests = [], prints = [], result = Inl TypeError\<rparr>"
  by (simp add: commit_events_def format_event_def lookup_def)

section \<open>Chunk boundaries\<close>

lemma utf8_decode_one:
  "c < 0x80 \<Longrightarrow> utf8_decode (c # cs) = map_option ((#) (unat c)) (utf8_decode cs)"
  by (simp only: utf8_decode.simps if_False if_True simp_thms)

lemma utf8_decode_two:
  "\<not> c < 0x80 \<Longrightarrow> 0xC2 \<le> c \<and> c \<le> 0xDF \<Longrightarrow>
   utf8_decode (c # cs) =
     (case cs of
        b1 # r \<Rightarrow>
          if continuation b1
          then map_option ((#) ((unat c - 0xC0) * 64 + (unat b1 - 0x80))) (utf8_decode r)
          else None
      | _ \<Rightarrow> None)"
  by (simp only: utf8_decode.simps if_False if_True simp_thms)

lemma utf8_decode_three:
  "\<not> c < 0x80 \<Longrightarrow> \<not> (0xC2 \<le> c \<and> c \<le> 0xDF) \<Longrightarrow> 0xE0 \<le> c \<and> c \<le> 0xEF \<Longrightarrow>
   utf8_decode (c # cs) =
     (case cs of
        b1 # b2 # r \<Rightarrow>
          if second_of3 c b1 \<and> continuation b2
          then map_option
                 ((#) ((unat c - 0xE0) * 4096 + (unat b1 - 0x80) * 64 + (unat b2 - 0x80)))
                 (utf8_decode r)
          else None
      | _ \<Rightarrow> None)"
  by (simp only: utf8_decode.simps if_False if_True simp_thms)

lemma utf8_decode_four:
  "\<not> c < 0x80 \<Longrightarrow> \<not> (0xC2 \<le> c \<and> c \<le> 0xDF) \<Longrightarrow> \<not> (0xE0 \<le> c \<and> c \<le> 0xEF) \<Longrightarrow>
   0xF0 \<le> c \<and> c \<le> 0xF4 \<Longrightarrow>
   utf8_decode (c # cs) =
     (case cs of
        b1 # b2 # b3 # r \<Rightarrow>
          if second_of4 c b1 \<and> continuation b2 \<and> continuation b3
          then map_option
                 ((#) ((unat c - 0xF0) * 262144 + (unat b1 - 0x80) * 4096
                       + (unat b2 - 0x80) * 64 + (unat b3 - 0x80)))
                 (utf8_decode r)
          else None
      | _ \<Rightarrow> None)"
  by (simp only: utf8_decode.simps if_False if_True simp_thms)

lemma utf8_decode_invalid:
  "\<not> c < 0x80 \<Longrightarrow> \<not> (0xC2 \<le> c \<and> c \<le> 0xDF) \<Longrightarrow> \<not> (0xE0 \<le> c \<and> c \<le> 0xEF) \<Longrightarrow>
   \<not> (0xF0 \<le> c \<and> c \<le> 0xF4) \<Longrightarrow> utf8_decode (c # cs) = None"
  by (simp only: utf8_decode.simps if_False if_True simp_thms)


lemma utf8_decode_append:
  assumes "utf8_decode a = Some s" and "utf8_decode b = Some t"
  shows "utf8_decode (a @ b) = Some (s @ t)"
  using assms(1)
proof (induction "length a" arbitrary: a s rule: less_induct)
  case less
  show ?case
  proof (cases a)
    case Nil
    then show ?thesis using less.prems assms(2) by simp
  next
    case (Cons c cs)
    consider (one) "c < 0x80"
      | (two) "\<not> c < 0x80" "0xC2 \<le> c \<and> c \<le> 0xDF"
      | (three) "\<not> c < 0x80" "\<not> (0xC2 \<le> c \<and> c \<le> 0xDF)" "0xE0 \<le> c \<and> c \<le> 0xEF"
      | (four) "\<not> c < 0x80" "\<not> (0xC2 \<le> c \<and> c \<le> 0xDF)" "\<not> (0xE0 \<le> c \<and> c \<le> 0xEF)"
          "0xF0 \<le> c \<and> c \<le> 0xF4"
      | (bad) "\<not> c < 0x80" "\<not> (0xC2 \<le> c \<and> c \<le> 0xDF)" "\<not> (0xE0 \<le> c \<and> c \<le> 0xEF)"
          "\<not> (0xF0 \<le> c \<and> c \<le> 0xF4)"
      by blast
    then show ?thesis
    proof cases
      case one
      have d: "utf8_decode (c # xs) = map_option ((#) (unat c)) (utf8_decode xs)" for xs
        using one by (rule utf8_decode_one)
      obtain s' where s': "utf8_decode cs = Some s'" "s = unat c # s'"
        using less.prems unfolding Cons d by auto
      have "utf8_decode (cs @ b) = Some (s' @ t)"
        using less.hyps [of cs s'] Cons s'(1) by simp
      then show ?thesis unfolding Cons append_Cons d using s'(2) by simp
    next
      case two
      note d = utf8_decode_two [OF two]
      obtain b1 r s' where s': "cs = b1 # r" "continuation b1" "utf8_decode r = Some s'"
        "s = ((unat c - 0xC0) * 64 + (unat b1 - 0x80)) # s'"
        using less.prems unfolding Cons d by (auto split: list.splits if_splits)
      have "utf8_decode (r @ b) = Some (s' @ t)"
        using less.hyps [of r s'] Cons s'(1,3) by simp
      then show ?thesis unfolding Cons append_Cons d s'(1) using s'(2,4) by simp
    next
      case three
      note d = utf8_decode_three [OF three]
      obtain b1 b2 r s' where s': "cs = b1 # b2 # r" "second_of3 c b1 \<and> continuation b2"
        "utf8_decode r = Some s'"
        "s = ((unat c - 0xE0) * 4096 + (unat b1 - 0x80) * 64 + (unat b2 - 0x80)) # s'"
        using less.prems unfolding Cons d by (auto split: list.splits if_splits)
      have "utf8_decode (r @ b) = Some (s' @ t)"
        using less.hyps [of r s'] Cons s'(1,3) by simp
      then show ?thesis unfolding Cons append_Cons d s'(1) using s'(2,4) by simp
    next
      case four
      note d = utf8_decode_four [OF four]
      obtain b1 b2 b3 r s' where s': "cs = b1 # b2 # b3 # r"
        "second_of4 c b1 \<and> continuation b2 \<and> continuation b3"
        "utf8_decode r = Some s'"
        "s = ((unat c - 0xF0) * 262144 + (unat b1 - 0x80) * 4096
              + (unat b2 - 0x80) * 64 + (unat b3 - 0x80)) # s'"
        using less.prems unfolding Cons d by (auto split: list.splits if_splits)
      have "utf8_decode (r @ b) = Some (s' @ t)"
        using less.hyps [of r s'] Cons s'(1,3) by simp
      then show ?thesis unfolding Cons append_Cons d s'(1) using s'(2,4) by simp
    next
      case bad
      then show ?thesis using less.prems unfolding Cons utf8_decode_invalid [OF bad] by simp
    qed
  qed
qed

lemma utf8_decode_concat:
  assumes "list_all2 (\<lambda>chunk text. utf8_decode chunk = Some text) chunks texts"
  shows "utf8_decode (concat chunks) = Some (concat texts)"
  using assms
  by (induction chunks texts rule: list_all2_induct)
     (simp_all del: utf8_decode.simps(2) add: utf8_decode_append)

lemma observe_chunks_one_chunk:
  assumes "list_all2 (\<lambda>chunk text. utf8_decode chunk = Some text) chunks texts"
  shows "observe_chunks loads mk chunks [] = observe_chunks loads mk [concat chunks] []"
proof -
  have "list_all2 (\<lambda>chunk text. utf8_decode chunk = Some text) [concat chunks] [concat texts]"
    using utf8_decode_concat [OF assms] by simp
  then have "observe_chunks loads mk [concat chunks] [] =
      (concat (map (observe_line loads mk) (butlast (split_nl ([] @ concat [concat texts])))), None)"
    by (rule observe_chunks_lines) simp
  moreover have "observe_chunks loads mk chunks [] =
      (concat (map (observe_line loads mk) (butlast (split_nl ([] @ concat texts)))), None)"
    using assms by (rule observe_chunks_lines) simp
  ultimately show ?thesis by simp
qed

text \<open>
  Claim C1, at an input where it fails. The stream is one line with its newline, a JSON
  object whose string value is the letter U+00E9, encoded in the two bytes C3 A9. Delivered as one chunk, the line
  is decoded and processed. Delivered as two chunks cut between these two bytes, the first
  chunk is not valid UTF-8 on its own: \<^verbatim>\<open>chunk.decode('utf-8')\<close> raises, the generator ends
  with \<^verbatim>\<open>UnicodeDecodeError\<close> and the line is never processed. (Where every chunk
  decodes, the cut does not matter: \<open>observe_chunks_one_chunk\<close>.)
\<close>

theorem chunk_boundary_inside_character:
  \<open>observe_events example_client
      (respond_chunks 200 (str ''OK'') [ascii ''{"id":"'' @ [0xC3], [0xA9] @ ascii ''"}\<newline>''])
      loads mk (str ''/user'') None
     = \<lparr>obs_requests = [observe_request example_client (str ''/user'') None],
        emitted = [Print (Error_While (str ''observing events'') UnicodeDecodeError)],
        raised = Some UnicodeDecodeError\<rparr>
   \<and> observe_events example_client
      (respond_chunks 200 (str ''OK'') [ascii ''{"id":"'' @ [0xC3, 0xA9] @ ascii ''"}\<newline>''])
      loads mk (str ''/user'') None
     = \<lparr>obs_requests = [observe_request example_client (str ''/user'') None],
        emitted = observe_line loads mk (str ''{"id":"'' @ [233] @ str ''"}''),
        raised = None\<rparr>\<close>
  by (simp add: observe_events_def respond_chunks_def raise_for_status_def Let_def report_def
      continuation_def drain_lines)

end
